theory Spec2Isabelle
  imports Main "HOL-Library.Word"
begin

section \<open>The request tracker\<close>

text \<open>
  Go's \<open>int\<close> is a 64-bit two's complement integer on the platforms the controller is
  built for: \<open>+=\<close> and \<open>-=\<close> wrap around, comparisons read the value with \<open>sint\<close>.
\<close>

type_synonym go_int = "64 word"

text \<open>
  \<open>v1.TriggerReference\<close> is declared outside the sources at hand. The code uses it as a
  map key and reads its field \<open>Name\<close>.
\<close>

datatype TriggerReference = TriggerReference (ref_Name: string)

record RequestCounter =
  TotalRequests :: go_int
  FailedRequests :: go_int

text \<open>
  The map \<open>Counter\<close> holds pointers to counters, so the tracker carries the store the
  pointers point into: \<open>cells\<close> gives the counter at each address and \<open>next_cell\<close> is
  the first address not yet handed out by an allocation. The mutex is not modelled: every
  method holds it for its whole body, so each call is one atomic step.
\<close>

type_synonym counter_ptr = nat

record RequestTracker =
  Counter :: "TriggerReference \<rightharpoonup> counter_ptr"
  cells :: "counter_ptr \<Rightarrow> RequestCounter"
  next_cell :: counter_ptr

definition zero_counter :: RequestCounter where
  "zero_counter = \<lparr>TotalRequests = 0, FailedRequests = 0\<rparr>"

definition makeRequestTracker :: RequestTracker where
  "makeRequestTracker = \<lparr>Counter = Map.empty, cells = (\<lambda>_. zero_counter), next_cell = 0\<rparr>"

text \<open>\<open>&RequestCounter{}\<close>: a fresh zeroed counter and the pointer to it.\<close>

definition new_RequestCounter :: "RequestTracker \<Rightarrow> counter_ptr \<times> RequestTracker" where
  "new_RequestCounter tr =
     (next_cell tr,
      tr\<lparr>cells := (cells tr)(next_cell tr := zero_counter), next_cell := Suc (next_cell tr)\<rparr>)"

definition inc_Failed :: "counter_ptr \<Rightarrow> RequestTracker \<Rightarrow> RequestTracker" where
  "inc_Failed p tr =
     tr\<lparr>cells := (cells tr)(p := (cells tr p)\<lparr>FailedRequests := FailedRequests (cells tr p) + 1\<rparr>)\<rparr>"

definition inc_Total :: "counter_ptr \<Rightarrow> RequestTracker \<Rightarrow> RequestTracker" where
  "inc_Total p tr =
     tr\<lparr>cells := (cells tr)(p := (cells tr p)\<lparr>TotalRequests := TotalRequests (cells tr p) + 1\<rparr>)\<rparr>"

text \<open>
  \<open>RequestTracker.set\<close>. The lookup yields the stored pointer; when the key is missing a
  new counter is allocated and \<open>value\<close> points to it. The increments go through
  \<open>value\<close>. The function ends there: no statement writes \<open>value\<close> into the map.
\<close>

definition set_RequestTracker ::
  "RequestTracker \<Rightarrow> TriggerReference \<Rightarrow> bool \<Rightarrow> RequestTracker" where
  "set_RequestTracker reqTracker triggerRef failedReq =
     (let (val, tr1) = (case Counter reqTracker triggerRef of
                          Some p \<Rightarrow> (p, reqTracker)
                        | None \<Rightarrow> new_RequestCounter reqTracker);
          tr2 = (if failedReq then inc_Failed val tr1 else tr1)
      in inc_Total val tr2)"

text \<open>
  \<open>RequestTracker.get\<close>: the pointer stored under the key, \<open>None\<close> for Go's \<open>nil\<close>
  (the zero value a map read gives for a missing key).
\<close>

definition get_RequestTracker ::
  "RequestTracker \<Rightarrow> TriggerReference \<Rightarrow> counter_ptr option" where
  "get_RequestTracker reqTracker triggerRef = Counter reqTracker triggerRef"

text \<open>A sequence of \<open>set\<close> calls, each given as the trigger and the \<open>failedReq\<close> flag.\<close>

fun set_calls :: "RequestTracker \<Rightarrow> (TriggerReference \<times> bool) list \<Rightarrow> RequestTracker" where
  "set_calls tr [] = tr"
| "set_calls tr ((t, f) # rest) = set_calls (set_RequestTracker tr t f) rest"

text \<open>
  Modelled from the spec: \<open>reset\<close> is called by the rollout tick but is not defined in
  the sources. The spec has it zero both counters of the trigger; a trigger without a
  counter is left as it is.
\<close>

definition reset :: "RequestTracker \<Rightarrow> TriggerReference \<Rightarrow> RequestTracker" where
  "reset reqTracker triggerRef =
     (case Counter reqTracker triggerRef of
        None \<Rightarrow> reqTracker
      | Some p \<Rightarrow> reqTracker\<lparr>cells := (cells reqTracker)(p := zero_counter)\<rparr>)"

text \<open>
  Modelled from the spec: \<open>calculatePercentageFailure\<close> is not defined in the sources.
  The spec gives the percentage as failed / total * 100; the tick compares it with the
  integer \<open>FailureThreshold\<close> and calls it only when the total is not zero.
\<close>

definition calculatePercentageFailure :: "RequestCounter \<Rightarrow> int" where
  "calculatePercentageFailure c = (sint (FailedRequests c) * 100) div sint (TotalRequests c)"

section \<open>The canary configuration manager\<close>

text \<open>
  The fields of \<open>crd.CanaryConfig\<close> and \<open>crd.HTTPTrigger\<close> that the manager reads,
  with the nesting (\<open>Metadata\<close>, \<open>Spec\<close>, \<open>FunctionReference\<close>) flattened. A Go map may
  be \<open>nil\<close>: \<open>FunctionWeights\<close> is \<open>None\<close> then. \<open>WeightIncrementDuration\<close> is a
  \<open>time.Duration\<close>, a 64-bit integer; no tick reads it.
\<close>

record CanaryConfig =
  cc_Name :: string
  cc_Namespace :: string
  cc_Trigger :: TriggerReference
  FunctionN :: string
  FunctionNminus1 :: string
  WeightIncrement :: go_int
  WeightIncrementDuration :: go_int
  FailureThreshold :: go_int

type_synonym weights = "string \<rightharpoonup> go_int"

record HTTPTrigger =
  tr_Name :: string
  tr_Namespace :: string
  FunctionWeights :: "weights option"

text \<open>
  The trigger objects live in the cluster, keyed by namespace and name, and are reached
  through the client's \<open>Get\<close> and \<open>Update\<close>. Either call can fail for reasons outside
  the program (a concurrent writer, the network); \<open>api_faults\<close> says what the cluster
  answers during one tick.
\<close>

type_synonym cluster = "string \<times> string \<rightharpoonup> HTTPTrigger"

datatype api_error = NotFound | Conflict | ServerError

record api_faults =
  get_fault :: "api_error option"
  update_fault :: "api_error option"

definition HTTPTriggers_Get ::
  "api_faults \<Rightarrow> cluster \<Rightarrow> string \<Rightarrow> string \<Rightarrow> api_error + HTTPTrigger" where
  "HTTPTriggers_Get env cl ns name =
     (case get_fault env of
        Some e \<Rightarrow> Inl e
      | None \<Rightarrow> (case cl (ns, name) of None \<Rightarrow> Inl NotFound | Some t \<Rightarrow> Inr t))"

definition HTTPTriggers_Update ::
  "api_faults \<Rightarrow> cluster \<Rightarrow> string \<Rightarrow> HTTPTrigger \<Rightarrow> api_error + cluster" where
  "HTTPTriggers_Update env cl ns t =
     (case update_fault env of
        Some e \<Rightarrow> Inl e
      | None \<Rightarrow> (case cl (ns, tr_Name t) of
                   None \<Rightarrow> Inl NotFound
                 | Some _ \<Rightarrow> Inr (cl((ns, tr_Name t) \<mapsto> t))))"

datatype go_panic = AssignToNilMap | CloseOfClosedChannel | NilDereference

text \<open>\<open>close(quit)\<close>: the channel is modelled by whether it has been closed.\<close>

definition close_chan :: "bool \<Rightarrow> go_panic + bool" where
  "close_chan closed = (if closed then Inl CloseOfClosedChannel else Inr True)"

text \<open>Reading a Go map at a missing key gives the zero value.\<close>

definition weight_of :: "weights \<Rightarrow> string \<Rightarrow> go_int" where
  "weight_of fw k = (case fw k of None \<Rightarrow> 0 | Some w \<Rightarrow> w)"

text \<open>
  The two assignments \<open>functionWeights[FunctionN] += WeightIncrement\<close> and
  \<open>functionWeights[FunctionNminus1] -= WeightIncrement\<close>, in this order. Nothing
  follows them before the write: the clamping is a TODO comment.
\<close>

definition shift_weights :: "CanaryConfig \<Rightarrow> weights \<Rightarrow> weights" where
  "shift_weights canaryConfig functionWeights =
     (let fw1 = functionWeights(FunctionN canaryConfig \<mapsto>
                  weight_of functionWeights (FunctionN canaryConfig) + WeightIncrement canaryConfig);
          fw2 = fw1(FunctionNminus1 canaryConfig \<mapsto>
                  weight_of fw1 (FunctionNminus1 canaryConfig) - WeightIncrement canaryConfig)
      in fw2)"

text \<open>
  What a tick reads and writes: the manager's tracker, the trigger objects in the
  cluster, and the loop's \<open>quit\<close> channel (\<open>True\<close> once closed).
\<close>

record tick_state =
  requestTracker :: RequestTracker
  httpTriggers :: cluster
  quit :: bool

text \<open>
  \<open>processCanaryConfig\<close>, one tick. \<open>rollback\<close> is called without arguments and is not
  defined in the sources: it is given neither the manager nor \<open>quit\<close>, so what it does is
  a parameter acting on the cluster. A panic is \<open>Inl\<close>; every \<open>return\<close> is \<open>Inr\<close> of
  the state the tick leaves behind.
\<close>

definition processCanaryConfig ::
  "(cluster \<Rightarrow> cluster) \<Rightarrow> api_faults \<Rightarrow> CanaryConfig \<Rightarrow> tick_state \<Rightarrow> go_panic + tick_state" where
  "processCanaryConfig rollback env canaryConfig s =
     (case get_RequestTracker (requestTracker s) (cc_Trigger canaryConfig) of
        None \<Rightarrow> Inr s
      | Some p \<Rightarrow>
          let requestCounter = cells (requestTracker s) p in
          if TotalRequests requestCounter = 0 then Inr s
          else
            let failurePercent = calculatePercentageFailure requestCounter in
            if failurePercent > sint (FailureThreshold canaryConfig) then
              (case close_chan (quit s) of
                 Inl pn \<Rightarrow> Inl pn
               | Inr q \<Rightarrow> Inr (s\<lparr>httpTriggers := rollback (httpTriggers s), quit := q\<rparr>))
            else
              (case HTTPTriggers_Get env (httpTriggers s) (cc_Namespace canaryConfig)
                      (ref_Name (cc_Trigger canaryConfig)) of
                 Inl err \<Rightarrow> Inr s
               | Inr t \<Rightarrow>
                   (case FunctionWeights t of
                      None \<Rightarrow> Inl AssignToNilMap
                    | Some fw \<Rightarrow>
                        let functionWeights = shift_weights canaryConfig fw;
                            t' = t\<lparr>FunctionWeights := Some functionWeights\<rparr>
                        in (case HTTPTriggers_Update env (httpTriggers s)
                                   (cc_Namespace canaryConfig) t' of
                              Inl err \<Rightarrow> Inr s
                            | Inr cl \<Rightarrow>
                                let s1 = s\<lparr>httpTriggers := cl,
                                           requestTracker :=
                                             reset (requestTracker s) (cc_Trigger canaryConfig)\<rparr>
                                in if 100 \<le> sint (weight_of functionWeights (FunctionN canaryConfig))
                                   then (case close_chan (quit s1) of
                                           Inl pn \<Rightarrow> Inl pn
                                         | Inr q \<Rightarrow> Inr (s1\<lparr>quit := q\<rparr>))
                                   else Inr s1))))"

text \<open>
  The loop of \<open>addCanaryConfig\<close> around the tick is not part of the model: its
  \<open>select\<close> chooses at random between a ticker that has fired and a closed \<open>quit\<close>.
  The properties below are about single ticks and about the handler that starts a loop.
\<close>

text \<open>
  The informer's \<open>AddFunc\<close> handler runs \<open>go addCanaryConfig(canaryConfig)\<close>: one more
  goroutine with a ticker and an open \<open>quit\<close> channel of its own. The controller's
  goroutines are a list, since the same configuration can be in it more than once.
\<close>

record rollout_loop =
  loop_config :: CanaryConfig
  loop_quit :: bool

definition AddFunc :: "CanaryConfig \<Rightarrow> rollout_loop list \<Rightarrow> rollout_loop list" where
  "AddFunc canaryConfig loops = loops @ [\<lparr>loop_config = canaryConfig, loop_quit = False\<rparr>]"

definition config_identity :: "CanaryConfig \<Rightarrow> string \<times> string" where
  "config_identity canaryConfig = (cc_Namespace canaryConfig, cc_Name canaryConfig)"

definition active_loops :: "string \<times> string \<Rightarrow> rollout_loop list \<Rightarrow> rollout_loop list" where
  "active_loops ident loops =
     filter (\<lambda>l. config_identity (loop_config l) = ident \<and> \<not> loop_quit l) loops"

fun added_events :: "CanaryConfig list \<Rightarrow> rollout_loop list \<Rightarrow> rollout_loop list" where
  "added_events [] loops = loops"
| "added_events (c # cs) loops = added_events cs (AddFunc c loops)"

text \<open>
  The answer to the \<open>Update\<close> call of a tick, \<open>None\<close> when the tick does not get as far
  as the call: the guards are those of \<open>processCanaryConfig\<close>, in its order.
\<close>

definition update_result ::
  "api_faults \<Rightarrow> CanaryConfig \<Rightarrow> tick_state \<Rightarrow> (api_error + cluster) option" where
  "update_result env canaryConfig s =
     (case get_RequestTracker (requestTracker s) (cc_Trigger canaryConfig) of
        None \<Rightarrow> None
      | Some p \<Rightarrow>
          if TotalRequests (cells (requestTracker s) p) = 0 then None
          else if calculatePercentageFailure (cells (requestTracker s) p)
                    > sint (FailureThreshold canaryConfig) then None
          else (case HTTPTriggers_Get env (httpTriggers s) (cc_Namespace canaryConfig)
                       (ref_Name (cc_Trigger canaryConfig)) of
                  Inl err \<Rightarrow> None
                | Inr t \<Rightarrow>
                    (case FunctionWeights t of
                       None \<Rightarrow> None
                     | Some fw \<Rightarrow>
                         Some (HTTPTriggers_Update env (httpTriggers s) (cc_Namespace canaryConfig)
                                 (t\<lparr>FunctionWeights := Some (shift_weights canaryConfig fw)\<rparr>)))))"

text \<open>The sum of the weights of a mapping, in Go's arithmetic.\<close>

definition total_weight :: "weights \<Rightarrow> go_int" where
  "total_weight fw = (\<Sum>k \<in> dom fw. weight_of fw k)"

text \<open>The counter invariant \<open>0 \<le> FailedRequests \<le> TotalRequests\<close>, on the signed values.\<close>

definition counter_ok :: "RequestCounter \<Rightarrow> bool" where
  "counter_ok c = (0 \<le> sint (FailedRequests c) \<and> sint (FailedRequests c) \<le> sint (TotalRequests c))"

section \<open>The Prometheus client\<close>

text \<open>
  \<open>model.Value\<close> of the Prometheus library, by its kinds; a vector is a list of samples,
  each a metric and a value. The query API is a parameter: it answers a query string and
  a time with the pair \<open>(val, err)\<close>, where \<open>None\<close> is \<open>nil\<close>.
\<close>

datatype model_Value = Scalar string | Vector "(string \<times> string) list" | Matrix | String

datatype log_line = Errorf_query string | Printf_elem string string | Printf_unrecognized

type_synonym query_api = "string \<Rightarrow> nat \<Rightarrow> model_Value option \<times> string option"

definition queryString :: "string \<Rightarrow> string \<Rightarrow> string" where
  "queryString funcName funcNs =
     ''fission_function_errors_total{name='' @ funcName @ '',namespace='' @ funcNs @ ''}''"

text \<open>
  \<open>GetFunctionFailurePercentage\<close> has no result: the model gives the lines it logs, and
  \<open>Inr ()\<close> when it returns or the panic when it does not. After logging a query error
  the function goes on to \<open>val.Type()\<close>, which panics on a \<open>nil\<close> value.
\<close>

definition GetFunctionFailurePercentage ::
  "query_api \<Rightarrow> string \<Rightarrow> string \<Rightarrow> nat \<Rightarrow> log_line list \<times> (go_panic + unit)" where
  "GetFunctionFailurePercentage client funcName funcNs timeDuration =
     (let (val, err) = client (queryString funcName funcNs) timeDuration;
          logged = (case err of None \<Rightarrow> [] | Some e \<Rightarrow> [Errorf_query e])
      in (case val of
            None \<Rightarrow> (logged, Inl NilDereference)
          | Some (Scalar v) \<Rightarrow> (logged, Inr ())
          | Some (Vector elems) \<Rightarrow> (logged @ map (\<lambda>(m, v). Printf_elem m v) elems, Inr ())
          | Some _ \<Rightarrow> (logged @ [Printf_unrecognized], Inr ())))"

section \<open>Scenarios\<close>

text \<open>
  The rollout of the spec's scenarios: trigger \<open>t1\<close> in namespace \<open>default\<close> routes to
  the incumbent \<open>v1\<close> and the candidate \<open>v2\<close>, the increment is 20, and the threshold
  is given.
\<close>

definition scenario_config :: "go_int \<Rightarrow> CanaryConfig" where
  "scenario_config threshold =
     \<lparr>cc_Name = ''canary'', cc_Namespace = ''default'', cc_Trigger = TriggerReference ''t1'',
      FunctionN = ''v2'', FunctionNminus1 = ''v1'', WeightIncrement = 20,
      WeightIncrementDuration = 60, FailureThreshold = threshold\<rparr>"

text \<open>A tracker whose map holds one counter for \<open>t1\<close>, with the given counts.\<close>

definition scenario_tracker :: "go_int \<Rightarrow> go_int \<Rightarrow> RequestTracker" where
  "scenario_tracker tot fl =
     \<lparr>Counter = [TriggerReference ''t1'' \<mapsto> 0],
      cells = (\<lambda>_. zero_counter)(0 := \<lparr>TotalRequests = tot, FailedRequests = fl\<rparr>),
      next_cell = 1\<rparr>"

definition scenario_trigger :: "go_int \<Rightarrow> go_int \<Rightarrow> HTTPTrigger" where
  "scenario_trigger wN wNminus1 =
     \<lparr>tr_Name = ''t1'', tr_Namespace = ''default'',
      FunctionWeights = Some [''v2'' \<mapsto> wN, ''v1'' \<mapsto> wNminus1]\<rparr>"

definition scenario_cluster :: "go_int \<Rightarrow> go_int \<Rightarrow> cluster" where
  "scenario_cluster wN wNminus1 = [(''default'', ''t1'') \<mapsto> scenario_trigger wN wNminus1]"

definition no_faults :: api_faults where
  "no_faults = \<lparr>get_fault = None, update_fault = None\<rparr>"

definition update_conflict :: api_faults where
  "update_conflict = \<lparr>get_fault = None, update_fault = Some Conflict\<rparr>"

text \<open>A rollback as the spec describes it: the candidate at 0 and the incumbent at 100.\<close>

definition scenario_rollback :: "cluster \<Rightarrow> cluster" where
  "scenario_rollback cl = scenario_cluster 0 100"

section \<open>Properties of the tracker\<close>

lemma Counter_set_RequestTracker: "Counter (set_RequestTracker tr t f) = Counter tr"
  by (simp add: set_RequestTracker_def new_RequestCounter_def inc_Failed_def inc_Total_def
      Let_def split: option.splits)

lemma Counter_set_calls: "Counter (set_calls tr calls) = Counter tr"
  by (induction tr calls rule: set_calls.induct) (simp_all add: Counter_set_RequestTracker)

text \<open>
  On a tracker made by \<open>makeRequestTracker\<close> the map stays empty whatever is recorded, so
  \<open>get\<close> answers \<open>nil\<close> for every trigger.
\<close>

lemma get_after_set_calls_fresh:
  "get_RequestTracker (set_calls makeRequestTracker calls) t = None"
  by (simp add: get_RequestTracker_def Counter_set_calls makeRequestTracker_def)

text \<open>
  Claim C1. The claim says that after any sequence of \<open>set\<close> calls \<open>get\<close> returns a
  counter holding the number of calls and the number of failed calls, the counter being
  created on first use. On a new tracker one \<open>set\<close> call for a trigger is followed by a
  \<open>get\<close> that returns \<open>nil\<close>: the counter allocated by \<open>set\<close> is never stored in the map.
\<close>

theorem set_then_get_is_nil:
  "get_RequestTracker
     (set_RequestTracker makeRequestTracker (TriggerReference ''t1'') False)
     (TriggerReference ''t1'') = None"
  by (simp add: get_RequestTracker_def set_RequestTracker_def new_RequestCounter_def
      inc_Total_def makeRequestTracker_def)

text \<open>What one \<open>set\<close> call does to the store, on a tracker in any state.\<close>

lemma set_stored_counter:
  assumes "Counter tr t = Some p"
  shows "cells (set_RequestTracker tr t f) =
           (cells tr)(p := \<lparr>TotalRequests = TotalRequests (cells tr p) + 1,
                            FailedRequests = FailedRequests (cells tr p) + (if f then 1 else 0)\<rparr>)"
  using assms
  by (cases "cells tr p") (simp add: set_RequestTracker_def inc_Failed_def inc_Total_def)

lemma set_new_counter:
  assumes "Counter tr t = None"
  shows "cells (set_RequestTracker tr t f) =
           (cells tr)(next_cell tr := \<lparr>TotalRequests = 1, FailedRequests = (if f then 1 else 0)\<rparr>)"
  using assms
  by (simp add: set_RequestTracker_def new_RequestCounter_def inc_Failed_def inc_Total_def
        zero_counter_def)

lemma counter_ok_nonneg: "counter_ok c \<Longrightarrow> 0 \<le> sint (TotalRequests c)"
  by (simp add: counter_ok_def)

text \<open>Adding 1 to an \<open>int\<close> below the largest one does not wrap around.\<close>

lemma sint_succ_go_int:
  fixes x :: go_int
  assumes "sint x < 2 ^ 63 - 1"
  shows "sint (x + 1) = sint x + 1"
proof -
  have lo: "- (2 ^ 63) \<le> sint x"
    using sint_ge [of x] by simp
  have "sint (x + 1) = signed_take_bit 63 (sint x + 1)"
    by (simp add: sint_word_ariths)
  also have "\<dots> = sint x + 1"
    by (rule signed_take_bit_int_eq_self) (use lo assms in simp_all)
  finally show ?thesis .
qed

lemma counter_ok_after_increment:
  assumes "counter_ok c" and "sint (TotalRequests c) < 2 ^ 63 - 1"
  shows "counter_ok \<lparr>TotalRequests = TotalRequests c + 1,
                     FailedRequests = FailedRequests c + (if f then 1 else 0)\<rparr>"
proof -
  have t: "sint (TotalRequests c + 1) = sint (TotalRequests c) + 1"
    using assms(2) by (rule sint_succ_go_int)
  have "sint (FailedRequests c) < 2 ^ 63 - 1"
    using assms by (simp add: counter_ok_def)
  then have "sint (FailedRequests c + 1) = sint (FailedRequests c) + 1"
    by (rule sint_succ_go_int)
  with assms(1) t show ?thesis
    by (simp add: counter_ok_def)
qed

lemma set_keeps_counter_ok:
  assumes "\<forall>p. counter_ok (cells tr p)"
    and "\<forall>p. sint (TotalRequests (cells tr p)) < 2 ^ 63 - 1"
  shows "\<forall>p. counter_ok (cells (set_RequestTracker tr t f) p)"
proof (cases "Counter tr t")
  case None
  with assms(1) show ?thesis
    by (simp add: set_new_counter [OF None] counter_ok_def)
next
  case (Some q)
  from counter_ok_after_increment [of "cells tr q" f] assms
  have "counter_ok \<lparr>TotalRequests = TotalRequests (cells tr q) + 1,
                     FailedRequests = FailedRequests (cells tr q) + (if f then 1 else 0)\<rparr>"
    by blast
  with assms(1) show ?thesis
    by (cases f) (simp_all add: set_stored_counter [OF Some])
qed

text \<open>A \<open>set\<close> call uses up at most one of the increments a counter has room for.\<close>

lemma set_keeps_room:
  assumes inv: "\<forall>p. counter_ok (cells tr p)"
    and room: "\<forall>p. sint (TotalRequests (cells tr p)) + int (Suc n) < 2 ^ 63 - 1"
  shows "\<forall>p. sint (TotalRequests (cells (set_RequestTracker tr t f) p)) + int n < 2 ^ 63 - 1"
proof
  fix p
  have r: "sint (TotalRequests (cells tr p)) + int n + 1 < 2 ^ 63 - 1"
    using room [rule_format, of p] by simp
  have nonneg: "0 \<le> sint (TotalRequests (cells tr p))"
    using inv by (simp add: counter_ok_nonneg)
  show "sint (TotalRequests (cells (set_RequestTracker tr t f) p)) + int n < 2 ^ 63 - 1"
  proof (cases "Counter tr t")
    case None
    show ?thesis
    proof (cases "p = next_cell tr")
      case True
      have "sint (1 :: go_int) + int n < 2 ^ 63 - 1"
        using r nonneg by simp
      then show ?thesis
        by (simp only: set_new_counter [OF None] True fun_upd_same RequestCounter.select_convs)
    next
      case False
      with r show ?thesis
        by (simp add: set_new_counter [OF None])
    qed
  next
    case (Some q)
    show ?thesis
    proof (cases "p = q")
      case True
      have "sint (TotalRequests (cells tr q)) < 2 ^ 63 - 1"
        using r True by simp
      then have "sint (TotalRequests (cells tr q) + 1) = sint (TotalRequests (cells tr q)) + 1"
        by (rule sint_succ_go_int)
      with r True show ?thesis
        by (simp only: set_stored_counter [OF Some] fun_upd_same RequestCounter.select_convs)
    next
      case False
      with r show ?thesis
        by (simp add: set_stored_counter [OF Some])
    qed
  qed
qed

lemma set_calls_keep_counter_ok:
  assumes "\<forall>p. counter_ok (cells tr p)"
    and "\<forall>p. sint (TotalRequests (cells tr p)) + int (length calls) < 2 ^ 63 - 1"
  shows "(\<forall>p. counter_ok (cells (set_calls tr calls) p))
       \<and> (\<forall>p. sint (TotalRequests (cells (set_calls tr calls) p)) < 2 ^ 63 - 1)"
  using assms
proof (induction tr calls rule: set_calls.induct)
  case (1 tr)
  then show ?case by simp
next
  case (2 tr t f rest)
  have room: "\<forall>p. sint (TotalRequests (cells tr p)) + int (Suc (length rest)) < 2 ^ 63 - 1"
    using "2.prems"(2) by simp
  have below: "\<forall>p. sint (TotalRequests (cells tr p)) < 2 ^ 63 - 1"
  proof
    fix p
    show "sint (TotalRequests (cells tr p)) < 2 ^ 63 - 1"
      using room [rule_format, of p] by simp
  qed
  have a: "\<forall>p. counter_ok (cells (set_RequestTracker tr t f) p)"
    using "2.prems"(1) below by (rule set_keeps_counter_ok)
  have b: "\<forall>p. sint (TotalRequests (cells (set_RequestTracker tr t f) p)) + int (length rest)
              < 2 ^ 63 - 1"
    using "2.prems"(1) room by (rule set_keeps_room)
  from "2.IH" [OF a b] show ?case by simp
qed

lemmas scenario_defs = scenario_config_def scenario_tracker_def scenario_trigger_def
  scenario_cluster_def scenario_rollback_def no_faults_def update_conflict_def

lemmas set_defs = set_RequestTracker_def new_RequestCounter_def inc_Failed_def inc_Total_def

text \<open>
  Claim C10, as stated: \<open>0 \<le> FailedRequests \<le> TotalRequests\<close> holds for every counter
  at all times, and \<open>set\<close> never decrements a field. On a tracker whose map holds a
  counter with \<open>TotalRequests\<close> at the largest \<open>int\<close>, the counter satisfies the
  invariant before a \<open>set\<close> call and not after it: \<open>TotalRequests\<close> wraps around to
  the smallest \<open>int\<close>.
\<close>

theorem stored_counter_overflow_counterexample:
  "counter_ok (cells (scenario_tracker 9223372036854775807 0) 0)
   \<and> \<not> counter_ok (cells (set_RequestTracker (scenario_tracker 9223372036854775807 0)
                              (TriggerReference ''t1'') False) 0)
   \<and> sint (TotalRequests (cells (set_RequestTracker (scenario_tracker 9223372036854775807 0)
                                   (TriggerReference ''t1'') False) 0))
       = - 9223372036854775808"
  by (simp add: counter_ok_def scenario_tracker_def set_defs)

text \<open>
  Claim C10, amended. Take a tracker in any state, also one whose map holds counters,
  in which every counter satisfies \<open>0 \<le> FailedRequests \<le> TotalRequests\<close> and has room
  below the largest \<open>int\<close> for the calls to come. Then every counter satisfies the
  invariant after any sequence of \<open>set\<close> calls and after one \<open>set\<close> call. One call
  changes one counter only: the one stored for the trigger, whose \<open>TotalRequests\<close>
  grows by 1 and whose \<open>FailedRequests\<close> grows by 1 when \<open>failed\<close> is true and by 0
  otherwise, without wrap-around; or, when the trigger has none, a new counter that
  starts from zero and gets the same increments.
\<close>

theorem set_keeps_counter_invariant:
  assumes "\<forall>p. counter_ok (cells tr p)"
    and "\<forall>p. sint (TotalRequests (cells tr p)) + int (length calls) < 2 ^ 63 - 1"
  shows "(\<forall>p. counter_ok (cells (set_calls tr calls) p))
       \<and> (\<forall>p. counter_ok (cells (set_RequestTracker tr t failed) p))
       \<and> (case Counter tr t of
            Some q \<Rightarrow>
              cells (set_RequestTracker tr t failed)
                = (cells tr)(q := \<lparr>TotalRequests = TotalRequests (cells tr q) + 1,
                                    FailedRequests = FailedRequests (cells tr q)
                                                       + (if failed then 1 else 0)\<rparr>)
              \<and> sint (TotalRequests (cells tr q) + 1) = sint (TotalRequests (cells tr q)) + 1
              \<and> sint (FailedRequests (cells tr q) + (if failed then 1 else 0))
                  = sint (FailedRequests (cells tr q)) + (if failed then 1 else 0)
          | None \<Rightarrow>
              cells (set_RequestTracker tr t failed)
                = (cells tr)(next_cell tr := \<lparr>TotalRequests = 1,
                                               FailedRequests = (if failed then 1 else 0)\<rparr>))"
proof -
  have below: "\<forall>p. sint (TotalRequests (cells tr p)) < 2 ^ 63 - 1"
  proof
    fix p
    show "sint (TotalRequests (cells tr p)) < 2 ^ 63 - 1"
      using assms(2) [rule_format, of p] by simp
  qed
  have seq: "\<forall>p. counter_ok (cells (set_calls tr calls) p)"
    using set_calls_keep_counter_ok [OF assms] by blast
  have one: "\<forall>p. counter_ok (cells (set_RequestTracker tr t failed) p)"
    using assms(1) below by (rule set_keeps_counter_ok)
  have step: "case Counter tr t of
            Some q \<Rightarrow>
              cells (set_RequestTracker tr t failed)
                = (cells tr)(q := \<lparr>TotalRequests = TotalRequests (cells tr q) + 1,
                                    FailedRequests = FailedRequests (cells tr q)
                                                       + (if failed then 1 else 0)\<rparr>)
              \<and> sint (TotalRequests (cells tr q) + 1) = sint (TotalRequests (cells tr q)) + 1
              \<and> sint (FailedRequests (cells tr q) + (if failed then 1 else 0))
                  = sint (FailedRequests (cells tr q)) + (if failed then 1 else 0)
          | None \<Rightarrow>
              cells (set_RequestTracker tr t failed)
                = (cells tr)(next_cell tr := \<lparr>TotalRequests = 1,
                                               FailedRequests = (if failed then 1 else 0)\<rparr>)"
  proof (cases "Counter tr t")
    case None
    then show ?thesis
      by (simp add: set_new_counter)
  next
    case (Some q)
    have t: "sint (TotalRequests (cells tr q) + 1) = sint (TotalRequests (cells tr q)) + 1"
      using below by (simp add: sint_succ_go_int)
    have "sint (FailedRequests (cells tr q)) < 2 ^ 63 - 1"
      using below [rule_format, of q] assms(1) [rule_format, of q] by (simp add: counter_ok_def)
    then have "sint (FailedRequests (cells tr q) + 1) = sint (FailedRequests (cells tr q)) + 1"
      by (rule sint_succ_go_int)
    with t show ?thesis
      by (simp add: Some set_stored_counter [OF Some])
  qed
  from seq one step show ?thesis by blast
qed

theorem set_keeps_counter_invariant_witness:
  "(\<forall>p. counter_ok (cells (scenario_tracker 10 2) p))
   \<and> (\<forall>p. sint (TotalRequests (cells (scenario_tracker 10 2) p))
            + int (length [(TriggerReference ''t1'', True), (TriggerReference ''t2'', False),
                           (TriggerReference ''t1'', False)]) < 2 ^ 63 - 1)
   \<and> counter_ok (cells (set_calls (scenario_tracker 10 2)
        [(TriggerReference ''t1'', True), (TriggerReference ''t2'', False),
         (TriggerReference ''t1'', False)]) 0)
   \<and> cells (set_calls (scenario_tracker 10 2)
        [(TriggerReference ''t1'', True), (TriggerReference ''t2'', False),
         (TriggerReference ''t1'', False)]) 0
       = \<lparr>TotalRequests = 12, FailedRequests = 3\<rparr>
   \<and> cells (set_RequestTracker (scenario_tracker 10 2) (TriggerReference ''t1'') True) 0
       = \<lparr>TotalRequests = 11, FailedRequests = 3\<rparr>"
proof -
  let ?calls = "[(TriggerReference ''t1'', True), (TriggerReference ''t2'', False),
                 (TriggerReference ''t1'', False)]"
  have h1: "\<forall>p. counter_ok (cells (scenario_tracker 10 2) p)"
    by (simp add: scenario_tracker_def counter_ok_def zero_counter_def)
  have h2: "\<forall>p. sint (TotalRequests (cells (scenario_tracker 10 2) p)) + int (length ?calls)
              < 2 ^ 63 - 1"
    by (simp add: scenario_tracker_def zero_counter_def)
  have v1: "cells (set_calls (scenario_tracker 10 2) ?calls) 0
              = \<lparr>TotalRequests = 12, FailedRequests = 3\<rparr>"
    by (simp add: scenario_tracker_def set_defs zero_counter_def)
  have v2: "cells (set_RequestTracker (scenario_tracker 10 2) (TriggerReference ''t1'') True) 0
              = \<lparr>TotalRequests = 11, FailedRequests = 3\<rparr>"
    by (simp add: scenario_tracker_def set_defs)
  from set_keeps_counter_invariant [OF h1 h2, of "TriggerReference ''t1''" True]
  have "counter_ok (cells (set_calls (scenario_tracker 10 2) ?calls) 0)"
    by blast
  with h1 h2 v1 v2 show ?thesis
    by blast
qed

section \<open>Properties of the rollout tick\<close>

lemmas tick_defs = processCanaryConfig_def get_RequestTracker_def calculatePercentageFailure_def
  HTTPTriggers_Get_def HTTPTriggers_Update_def shift_weights_def weight_of_def reset_def
  close_chan_def zero_counter_def Let_def

text \<open>
  Claim C2. The claim has a tick whose failure percentage is at or above
  \<open>FailureThreshold\<close> set the candidate's weight to 0 and stop the loop, as the comment
  in \<open>addCanaryConfig\<close> has it (roll back when the threshold is reached). With one
  failure in two requests and a threshold of 50 the percentage is at the threshold, and
  the tick does not roll back: it raises the candidate from 0 to 20, lowers the
  incumbent from 100 to 80, resets the counters and leaves \<open>quit\<close> open.
\<close>

theorem tick_at_threshold_increments:
  "calculatePercentageFailure (cells (scenario_tracker 2 1) 0)
     = sint (FailureThreshold (scenario_config 50))
   \<and> processCanaryConfig rollback no_faults (scenario_config 50)
       \<lparr>requestTracker = scenario_tracker 2 1, httpTriggers = scenario_cluster 0 100, quit = False\<rparr>
     = Inr \<lparr>requestTracker = scenario_tracker 0 0, httpTriggers = scenario_cluster 20 80,
            quit = False\<rparr>"
  by (simp add: tick_defs scenario_defs)

text \<open>
  Only a percentage above the threshold takes the other branch: the tick calls
  \<open>rollback\<close> and closes \<open>quit\<close>, and writes nothing itself.
\<close>

lemma tick_above_threshold_rolls_back:
  assumes "get_RequestTracker (requestTracker s) (cc_Trigger canaryConfig) = Some p"
    and "TotalRequests (cells (requestTracker s) p) \<noteq> 0"
    and "calculatePercentageFailure (cells (requestTracker s) p)
           > sint (FailureThreshold canaryConfig)"
    and "\<not> quit s"
  shows "processCanaryConfig rollback env canaryConfig s
           = Inr (s\<lparr>httpTriggers := rollback (httpTriggers s), quit := True\<rparr>)"
  using assms by (simp add: processCanaryConfig_def close_chan_def Let_def)

text \<open>
  Claim C3. The claim has the new weights clamped to \<open>[0, 100]\<close>. With the candidate at
  90, the incumbent at 10 and an increment of 20, a tick over ten requests without
  failures writes 110 and -10 to the trigger (and closes \<open>quit\<close>, since 110 is at least
  100): the code adds and subtracts and nothing clamps.
\<close>

theorem tick_weights_not_clamped:
  "processCanaryConfig rollback no_faults (scenario_config 10)
     \<lparr>requestTracker = scenario_tracker 10 0, httpTriggers = scenario_cluster 90 10, quit = False\<rparr>
   = Inr \<lparr>requestTracker = scenario_tracker 0 0, httpTriggers = scenario_cluster 110 (- 10),
          quit = True\<rparr>
   \<and> sint (110 :: go_int) = 110 \<and> sint (- 10 :: go_int) = - 10"
  by (simp add: tick_defs scenario_defs)

text \<open>
  Claim C5. The claim has the loop end when the trigger read fails with NotFound. With
  the trigger gone from the cluster \<open>Get\<close> answers NotFound, and the tick returns with
  the state as it was, \<open>quit\<close> still open: the loop goes on ticking.
\<close>

theorem tick_trigger_not_found_keeps_running:
  "HTTPTriggers_Get no_faults Map.empty ''default'' ''t1'' = Inl NotFound
   \<and> processCanaryConfig rollback no_faults (scenario_config 10)
       \<lparr>requestTracker = scenario_tracker 10 0, httpTriggers = Map.empty, quit = False\<rparr>
     = Inr \<lparr>requestTracker = scenario_tracker 10 0, httpTriggers = Map.empty, quit = False\<rparr>"
  by (simp add: tick_defs scenario_defs)

text \<open>
  Claim C7. On a tick where the tracker has no counter for the trigger, or the counter's
  \<open>TotalRequests\<close> is zero, the tick returns the state it was given: no call to the
  cluster, the tracker as it was, \<open>quit\<close> as it was.
\<close>

theorem tick_without_data_does_nothing:
  assumes "get_RequestTracker (requestTracker s) (cc_Trigger canaryConfig) = None
         \<or> (\<exists>p. get_RequestTracker (requestTracker s) (cc_Trigger canaryConfig) = Some p
                \<and> TotalRequests (cells (requestTracker s) p) = 0)"
  shows "processCanaryConfig rollback env canaryConfig s = Inr s"
  using assms by (auto simp: processCanaryConfig_def)

theorem tick_without_data_does_nothing_witness:
  "get_RequestTracker makeRequestTracker (cc_Trigger (scenario_config 10)) = None
   \<and> processCanaryConfig scenario_rollback no_faults (scenario_config 10)
       \<lparr>requestTracker = makeRequestTracker, httpTriggers = scenario_cluster 0 100, quit = False\<rparr>
     = Inr \<lparr>requestTracker = makeRequestTracker, httpTriggers = scenario_cluster 0 100,
            quit = False\<rparr>
   \<and> get_RequestTracker (scenario_tracker 0 0) (cc_Trigger (scenario_config 10)) = Some 0
   \<and> TotalRequests (cells (scenario_tracker 0 0) 0) = 0
   \<and> processCanaryConfig scenario_rollback no_faults (scenario_config 10)
       \<lparr>requestTracker = scenario_tracker 0 0, httpTriggers = scenario_cluster 0 100, quit = False\<rparr>
     = Inr \<lparr>requestTracker = scenario_tracker 0 0, httpTriggers = scenario_cluster 0 100,
            quit = False\<rparr>"
proof -
  let ?a = "\<lparr>requestTracker = makeRequestTracker, httpTriggers = scenario_cluster 0 100,
             quit = False\<rparr>"
  let ?b = "\<lparr>requestTracker = scenario_tracker 0 0, httpTriggers = scenario_cluster 0 100,
             quit = False\<rparr>"
  have a: "get_RequestTracker (requestTracker ?a) (cc_Trigger (scenario_config 10)) = None"
    by (simp add: get_RequestTracker_def makeRequestTracker_def)
  have b1: "get_RequestTracker (requestTracker ?b) (cc_Trigger (scenario_config 10)) = Some 0"
    by (simp add: get_RequestTracker_def scenario_defs)
  have b2: "TotalRequests (cells (requestTracker ?b) 0) = 0"
    by (simp add: scenario_defs)
  have ta: "processCanaryConfig scenario_rollback no_faults (scenario_config 10) ?a = Inr ?a"
    by (rule tick_without_data_does_nothing) (use a in blast)
  have tb: "processCanaryConfig scenario_rollback no_faults (scenario_config 10) ?b = Inr ?b"
    by (rule tick_without_data_does_nothing) (use b1 b2 in blast)
  from a b1 b2 ta tb show ?thesis by simp
qed


lemmas update_defs = update_result_def get_RequestTracker_def calculatePercentageFailure_def
  HTTPTriggers_Get_def HTTPTriggers_Update_def shift_weights_def weight_of_def Let_def

lemma reset_zeroes_counter:
  assumes "Counter tr t = Some p"
  shows "cells (reset tr t) p = zero_counter" and "Counter (reset tr t) = Counter tr"
  using assms by (simp_all add: reset_def)

text \<open>
  Claim C8. In a tick entered with \<open>quit\<close> open: when the \<open>Update\<close> call succeeds, the
  tick returns with the tracker after \<open>reset\<close> for the trigger and the cluster as
  updated; when the \<open>Update\<close> call fails, the tick returns the state it was given,
  tracker and \<open>quit\<close> included; when the tick makes no \<open>Update\<close> call, it ends with the
  tracker as it was (or panics on a \<open>nil\<close> weight map). So the counters are reset in the
  ticks whose update succeeds and in no others.
\<close>

theorem reset_exactly_on_update_success:
  assumes "\<not> quit s"
  shows "(case update_result env canaryConfig s of
            Some (Inr cl) \<Rightarrow>
              (\<exists>s'. processCanaryConfig rollback env canaryConfig s = Inr s'
                  \<and> requestTracker s' = reset (requestTracker s) (cc_Trigger canaryConfig)
                  \<and> httpTriggers s' = cl)
          | Some (Inl err) \<Rightarrow> processCanaryConfig rollback env canaryConfig s = Inr s
          | None \<Rightarrow>
              processCanaryConfig rollback env canaryConfig s = Inl AssignToNilMap
              \<or> (\<exists>s'. processCanaryConfig rollback env canaryConfig s = Inr s'
                     \<and> requestTracker s' = requestTracker s))"
  using assms
  by (auto simp: update_result_def processCanaryConfig_def close_chan_def Let_def
           split: option.splits sum.splits)

theorem reset_exactly_on_update_success_witness:
  "update_result no_faults (scenario_config 10)
      \<lparr>requestTracker = scenario_tracker 10 0, httpTriggers = scenario_cluster 0 100, quit = False\<rparr>
     = Some (Inr (scenario_cluster 20 80))
   \<and> (\<exists>s'. processCanaryConfig scenario_rollback no_faults (scenario_config 10)
              \<lparr>requestTracker = scenario_tracker 10 0, httpTriggers = scenario_cluster 0 100,
               quit = False\<rparr> = Inr s'
          \<and> requestTracker s' = reset (scenario_tracker 10 0) (TriggerReference ''t1'')
          \<and> httpTriggers s' = scenario_cluster 20 80)
   \<and> reset (scenario_tracker 10 0) (TriggerReference ''t1'') = scenario_tracker 0 0
   \<and> update_result update_conflict (scenario_config 10)
      \<lparr>requestTracker = scenario_tracker 10 0, httpTriggers = scenario_cluster 0 100, quit = False\<rparr>
     = Some (Inl Conflict)
   \<and> processCanaryConfig scenario_rollback update_conflict (scenario_config 10)
        \<lparr>requestTracker = scenario_tracker 10 0, httpTriggers = scenario_cluster 0 100,
         quit = False\<rparr>
       = Inr \<lparr>requestTracker = scenario_tracker 10 0, httpTriggers = scenario_cluster 0 100,
              quit = False\<rparr>"
proof -
  let ?s = "\<lparr>requestTracker = scenario_tracker 10 0, httpTriggers = scenario_cluster 0 100,
             quit = False\<rparr>"
  have open_quit: "\<not> quit ?s"
    by simp
  have ok: "update_result no_faults (scenario_config 10) ?s = Some (Inr (scenario_cluster 20 80))"
    by (simp add: update_defs scenario_defs)
  have conflict: "update_result update_conflict (scenario_config 10) ?s = Some (Inl Conflict)"
    by (simp add: update_defs scenario_defs)
  have zeroed: "reset (scenario_tracker 10 0) (TriggerReference ''t1'') = scenario_tracker 0 0"
    by (simp add: reset_def scenario_tracker_def zero_counter_def)
  from reset_exactly_on_update_success
         [OF open_quit, where env = no_faults and canaryConfig = "scenario_config 10"
            and rollback = scenario_rollback]
       reset_exactly_on_update_success
         [OF open_quit, where env = update_conflict and canaryConfig = "scenario_config 10"
            and rollback = scenario_rollback]
  show ?thesis
    using ok conflict zeroed by (simp add: scenario_config_def)
qed

section \<open>Properties of the weight update\<close>

lemma weight_of_shift_weights:
  "weight_of (shift_weights c fw) k =
     weight_of fw k + (if k = FunctionN c then WeightIncrement c else 0)
                    - (if k = FunctionNminus1 c then WeightIncrement c else 0)"
  by (simp add: shift_weights_def weight_of_def Let_def)

lemma dom_shift_weights:
  "dom (shift_weights c fw) = dom fw \<union> {FunctionN c, FunctionNminus1 c}"
  by (auto simp: shift_weights_def Let_def)

lemma weight_of_outside_dom: "k \<notin> dom fw \<Longrightarrow> weight_of fw k = 0"
  by (auto simp: weight_of_def split: option.splits)

lemma total_weight_superset:
  assumes "finite S" and "dom fw \<subseteq> S"
  shows "(\<Sum>k \<in> S. weight_of fw k) = total_weight fw"
  unfolding total_weight_def
  by (rule sum.mono_neutral_right) (use assms in \<open>auto simp: weight_of_outside_dom\<close>)

text \<open>
  The two assignments add and subtract the same increment, so the sum of the mapping is
  the same afterwards, also when a key was missing and the assignment creates it.
\<close>

lemma total_weight_shift_weights: "total_weight (shift_weights c fw) = total_weight fw"
proof (cases "finite (dom fw)")
  case False
  then have "infinite (dom (shift_weights c fw))"
    by (simp add: dom_shift_weights)
  with False show ?thesis
    by (simp add: total_weight_def)
next
  case True
  define S where "S = dom fw \<union> {FunctionN c, FunctionNminus1 c}"
  have fin: "finite S"
    using True by (simp add: S_def)
  have "total_weight (shift_weights c fw) = (\<Sum>k \<in> S. weight_of (shift_weights c fw) k)"
    by (simp add: total_weight_def dom_shift_weights S_def)
  also have "\<dots> = (\<Sum>k \<in> S. weight_of fw k)
                  + (\<Sum>k \<in> S. if k = FunctionN c then WeightIncrement c else 0)
                  - (\<Sum>k \<in> S. if k = FunctionNminus1 c then WeightIncrement c else 0)"
    by (simp add: weight_of_shift_weights sum.distrib sum_subtractf)
  also have "\<dots> = (\<Sum>k \<in> S. weight_of fw k)"
    using fin by (simp add: S_def)
  also have "\<dots> = total_weight fw"
    using fin by (rule total_weight_superset) (auto simp: S_def)
  finally show ?thesis .
qed

text \<open>The trigger a successful tick writes is the one it read, with the shifted weights.\<close>

lemma update_result_writes_shifted:
  assumes "update_result env c s = Some (Inr cl)"
  shows "\<exists>t fw. HTTPTriggers_Get env (httpTriggers s) (cc_Namespace c) (ref_Name (cc_Trigger c)) = Inr t
              \<and> FunctionWeights t = Some fw
              \<and> cl = (httpTriggers s)((cc_Namespace c, tr_Name t) \<mapsto>
                        t\<lparr>FunctionWeights := Some (shift_weights c fw)\<rparr>)"
  using assms
  by (auto simp: update_result_def HTTPTriggers_Update_def Let_def
           split: option.splits sum.splits if_splits)

lemma tick_on_update_success:
  assumes "update_result env c s = Some (Inr cl)" and "\<not> quit s"
  shows "\<exists>s'. processCanaryConfig rollback env c s = Inr s' \<and> httpTriggers s' = cl"
  using assms
  by (auto simp: update_result_def processCanaryConfig_def close_chan_def Let_def
           split: option.splits sum.splits if_splits)

text \<open>
  Claim C9, as stated: an increment tick changes the entry of \<open>FunctionN\<close> by
  \<open>+WeightIncrement\<close> and the entry of \<open>FunctionNminus1\<close> by \<open>-WeightIncrement\<close>. In a
  configuration that names the same function \<open>v2\<close> as both, a tick whose update
  succeeds writes the weight of \<open>v2\<close> back as it read it, 20, with an increment of 20.
\<close>

theorem same_function_counterexample:
  "FunctionN ((scenario_config 10)\<lparr>FunctionNminus1 := ''v2''\<rparr>) = ''v2''
   \<and> WeightIncrement ((scenario_config 10)\<lparr>FunctionNminus1 := ''v2''\<rparr>) = 20
   \<and> processCanaryConfig scenario_rollback no_faults
       ((scenario_config 10)\<lparr>FunctionNminus1 := ''v2''\<rparr>)
       \<lparr>requestTracker = scenario_tracker 10 0, httpTriggers = scenario_cluster 20 80, quit = False\<rparr>
     = Inr \<lparr>requestTracker = scenario_tracker 0 0, httpTriggers = scenario_cluster 20 80,
            quit = False\<rparr>"
  by (simp add: tick_defs scenario_defs) (simp add: fun_eq_iff)

text \<open>
  Claim C9, amended. Take a tick, entered with \<open>quit\<close> open, that gets as far as the
  \<open>Update\<close> call and whose update succeeds, for a configuration whose \<open>FunctionN\<close> and
  \<open>FunctionNminus1\<close> are distinct. The tick returns, and the cluster it leaves is the
  one it found with the trigger it read written back under new weights. In these the
  entry of \<open>FunctionN\<close> is raised by \<open>WeightIncrement\<close>, the entry of
  \<open>FunctionNminus1\<close> is lowered by \<open>WeightIncrement\<close>, the entry of every other
  function is as it was, and the sum of all weights is the same.
\<close>

theorem tick_shifts_two_weights:
  assumes "update_result env c s = Some (Inr cl)" and "\<not> quit s"
    and "FunctionN c \<noteq> FunctionNminus1 c"
  shows "\<exists>t fw fw' s'.
           HTTPTriggers_Get env (httpTriggers s) (cc_Namespace c) (ref_Name (cc_Trigger c)) = Inr t
         \<and> FunctionWeights t = Some fw
         \<and> processCanaryConfig rollback env c s = Inr s'
         \<and> httpTriggers s' = cl
         \<and> cl = (httpTriggers s)((cc_Namespace c, tr_Name t) \<mapsto> t\<lparr>FunctionWeights := Some fw'\<rparr>)
         \<and> weight_of fw' (FunctionN c) = weight_of fw (FunctionN c) + WeightIncrement c
         \<and> weight_of fw' (FunctionNminus1 c) = weight_of fw (FunctionNminus1 c) - WeightIncrement c
         \<and> (\<forall>k. k \<noteq> FunctionN c \<and> k \<noteq> FunctionNminus1 c \<longrightarrow> fw' k = fw k)
         \<and> total_weight fw' = total_weight fw"
proof -
  from update_result_writes_shifted [OF assms(1)]
  obtain t fw where got:
      "HTTPTriggers_Get env (httpTriggers s) (cc_Namespace c) (ref_Name (cc_Trigger c)) = Inr t"
    and fw: "FunctionWeights t = Some fw"
    and cl: "cl = (httpTriggers s)((cc_Namespace c, tr_Name t) \<mapsto>
                     t\<lparr>FunctionWeights := Some (shift_weights c fw)\<rparr>)"
    by blast
  from tick_on_update_success [OF assms(1,2)]
  obtain s' where tick: "processCanaryConfig rollback env c s = Inr s'" "httpTriggers s' = cl"
    by blast
  have n: "weight_of (shift_weights c fw) (FunctionN c)
             = weight_of fw (FunctionN c) + WeightIncrement c"
    using assms(3) by (simp add: weight_of_shift_weights)
  have m: "weight_of (shift_weights c fw) (FunctionNminus1 c)
             = weight_of fw (FunctionNminus1 c) - WeightIncrement c"
    using assms(3) by (simp add: weight_of_shift_weights)
  have others: "\<forall>k. k \<noteq> FunctionN c \<and> k \<noteq> FunctionNminus1 c \<longrightarrow> shift_weights c fw k = fw k"
    by (simp add: shift_weights_def Let_def)
  have total: "total_weight (shift_weights c fw) = total_weight fw"
    by (rule total_weight_shift_weights)
  from got fw tick cl n m others total show ?thesis
    by blast
qed

theorem tick_shifts_two_weights_witness:
  "update_result no_faults (scenario_config 10)
      \<lparr>requestTracker = scenario_tracker 10 0, httpTriggers = scenario_cluster 20 80, quit = False\<rparr>
     = Some (Inr (scenario_cluster 40 60))
   \<and> \<not> quit \<lparr>requestTracker = scenario_tracker 10 0, httpTriggers = scenario_cluster 20 80,
              quit = False\<rparr>
   \<and> FunctionN (scenario_config 10) \<noteq> FunctionNminus1 (scenario_config 10)
   \<and> (\<exists>s'. processCanaryConfig scenario_rollback no_faults (scenario_config 10)
              \<lparr>requestTracker = scenario_tracker 10 0, httpTriggers = scenario_cluster 20 80,
               quit = False\<rparr> = Inr s'
          \<and> httpTriggers s' = scenario_cluster 40 60)"
proof -
  let ?s = "\<lparr>requestTracker = scenario_tracker 10 0, httpTriggers = scenario_cluster 20 80,
             quit = False\<rparr>"
  have h1: "update_result no_faults (scenario_config 10) ?s = Some (Inr (scenario_cluster 40 60))"
    by (simp add: update_defs scenario_defs)
  have h2: "\<not> quit ?s"
    by simp
  have h3: "FunctionN (scenario_config 10) \<noteq> FunctionNminus1 (scenario_config 10)"
    by (simp add: scenario_config_def)
  from tick_shifts_two_weights [OF h1 h2 h3, of scenario_rollback]
  have "\<exists>s'. processCanaryConfig scenario_rollback no_faults (scenario_config 10) ?s = Inr s'
           \<and> httpTriggers s' = scenario_cluster 40 60"
    by blast
  with h1 h2 h3 show ?thesis
    by blast
qed

section \<open>Properties of the controller's event handling\<close>

lemma active_loops_AddFunc:
  "active_loops ident (AddFunc c loops) =
     active_loops ident loops
       @ (if config_identity c = ident then [\<lparr>loop_config = c, loop_quit = False\<rparr>] else [])"
  by (simp add: active_loops_def AddFunc_def)

text \<open>
  Claim C4, as stated: after two Added events for one identity exactly one loop is
  active. On a controller without loops, two Added events for the same configuration
  leave two active loops for its identity.
\<close>

theorem two_added_events_counterexample:
  "length (active_loops (''default'', ''canary'')
             (AddFunc (scenario_config 10) (AddFunc (scenario_config 10) []))) = 2"
  by (simp add: AddFunc_def active_loops_def config_identity_def scenario_config_def)

text \<open>
  Claim C4, amended. Every Added event starts one loop for its configuration, whether or
  not a loop for that identity is active: after a sequence of Added events the number of
  active loops of an identity has grown by the number of events carrying that identity.
\<close>

theorem added_events_start_one_loop_each:
  "length (active_loops ident (added_events cs loops)) =
     length (active_loops ident loops) + length (filter (\<lambda>c. config_identity c = ident) cs)"
proof (induction cs arbitrary: loops)
  case Nil
  show ?case by simp
next
  case (Cons c cs)
  show ?case by (simp add: Cons.IH active_loops_AddFunc)
qed

section \<open>Properties of the Prometheus client\<close>

text \<open>
  Claim C6, as stated: a failed query is reported to the caller as an error. A query that
  fails with a (non-nil) empty vector makes the function log the error and return like a
  successful one; the caller of a function without results is given nothing.
\<close>

theorem query_failure_counterexample:
  "GetFunctionFailurePercentage (\<lambda>q t. (Some (Vector []), Some ''timeout'')) ''f'' ''ns'' 0
     = ([Errorf_query ''timeout''], Inr ())
   \<and> snd (GetFunctionFailurePercentage (\<lambda>q t. (Some (Vector []), None)) ''f'' ''ns'' 0) = Inr ()"
  by (simp add: GetFunctionFailurePercentage_def)

text \<open>
  Claim C6, amended. When the query fails, the first line the function logs is the query
  error, and what the caller gets is what it gets for the same value without the error:
  no error value and no percentage, so no zero percentage either.
\<close>

theorem query_failure_logged_not_returned:
  assumes "snd (client (queryString funcName funcNs) timeDuration) = Some e"
  shows "(\<exists>rest. fst (GetFunctionFailurePercentage client funcName funcNs timeDuration)
                   = Errorf_query e # rest)
       \<and> snd (GetFunctionFailurePercentage client funcName funcNs timeDuration)
           = snd (GetFunctionFailurePercentage (\<lambda>q t. (fst (client q t), None))
                    funcName funcNs timeDuration)"
  using assms
  by (cases "client (queryString funcName funcNs) timeDuration")
     (auto simp: GetFunctionFailurePercentage_def split: option.splits model_Value.splits)

theorem query_failure_logged_not_returned_witness:
  "snd ((\<lambda>q t. (Some (Vector [(''fn'', ''3'')]), Some ''timeout''))
          (queryString ''fn'' ''default'') (0 :: nat)) = Some ''timeout''
   \<and> GetFunctionFailurePercentage (\<lambda>q t. (Some (Vector [(''fn'', ''3'')]), Some ''timeout''))
        ''fn'' ''default'' 0
       = ([Errorf_query ''timeout'', Printf_elem ''fn'' ''3''], Inr ())
   \<and> snd (GetFunctionFailurePercentage (\<lambda>q t. (Some (Vector [(''fn'', ''3'')]), None))
        ''fn'' ''default'' 0) = Inr ()"
proof -
  let ?client = "\<lambda>(q :: string) (t :: nat). (Some (Vector [(''fn'', ''3'')]), Some ''timeout'')"
  have h: "snd (?client (queryString ''fn'' ''default'') 0) = Some ''timeout''"
    by simp
  from query_failure_logged_not_returned [OF h]
  show ?thesis
    by (simp add: GetFunctionFailurePercentage_def)
qed

end
